theory Spec2Isabelle
  imports Complex_Main "HOL-Library.AList" "HOL-Library.Multiset" "HOL-Library.Monad_Syntax"
begin

section \<open>JSON values as Python sees them\<close>

text \<open>
  \<^verbatim>\<open>response.json()\<close> hands the client a tree of Python values: \<^verbatim>\<open>None\<close>, \<^verbatim>\<open>bool\<close>,
  \<^verbatim>\<open>int\<close> (unbounded), \<^verbatim>\<open>float\<close>, \<^verbatim>\<open>str\<close>, \<^verbatim>\<open>list\<close> and \<^verbatim>\<open>dict\<close> with string keys.
  A float is a double; the code only truncates and compares floats, which is exact, so a
  finite float is modelled by its value as a real number. Python's parser also accepts the
  literals \<^verbatim>\<open>NaN\<close>, \<^verbatim>\<open>Infinity\<close> and \<^verbatim>\<open>-Infinity\<close>.
  A dict is an association list in insertion order; a Python dict never holds a key
  twice, so the keys of a well-formed dict are distinct.
\<close>

datatype pyfloat = Fin real | PosInf | NegInf | NaN

datatype json =
    JNull
  | JBool bool
  | JInt int
  | JFloat pyfloat
  | JStr string
  | JArr "json list"
  | JObj "(string \<times> json) list"

type_synonym dict = "(string \<times> json) list"

text \<open>\<^verbatim>\<open>k in d\<close>, \<^verbatim>\<open>d.get(k)\<close> (with \<^verbatim>\<open>None\<close> for a missing key), \<^verbatim>\<open>d[k] = v\<close> and
  \<^verbatim>\<open>d.pop(k)\<close> of a present key.\<close>

definition has_key :: "string \<Rightarrow> (string \<times> 'a) list \<Rightarrow> bool" where
  "has_key k d = (k \<in> set (map fst d))"

definition get :: "dict \<Rightarrow> string \<Rightarrow> json" where
  "get d k = (case map_of d k of None \<Rightarrow> JNull | Some v \<Rightarrow> v)"

definition setitem :: "string \<Rightarrow> 'a \<Rightarrow> (string \<times> 'a) list \<Rightarrow> (string \<times> 'a) list" where
  "setitem k v d = AList.update k v d"

definition pop :: "string \<Rightarrow> dict \<Rightarrow> json \<times> dict" where
  "pop k d = (get d k, AList.delete k d)"

text \<open>Python's truth value of a JSON value, as \<^verbatim>\<open>if x:\<close> and \<^verbatim>\<open>not x\<close> test it.\<close>

fun truthy :: "json \<Rightarrow> bool" where
  "truthy JNull = False"
| "truthy (JBool b) = b"
| "truthy (JInt n) = (n \<noteq> 0)"
| "truthy (JFloat (Fin x)) = (x \<noteq> 0)"
| "truthy (JFloat _) = True"
| "truthy (JStr s) = (s \<noteq> [])"
| "truthy (JArr xs) = (xs \<noteq> [])"
| "truthy (JObj kvs) = (kvs \<noteq> [])"

section \<open>Errors\<close>

text \<open>
  Constructing a pydantic model raises \<^verbatim>\<open>ValidationError\<close>, which lists the fields that
  failed: a required field that is missing, or a field whose value is not valid. The
  model keeps the top-level field name of each entry. Python exceptions raised by the
  repository's own validators that pydantic does not turn into a \<^verbatim>\<open>ValidationError\<close>
  leave the constructor as they are.
\<close>

datatype problem = Missing | Invalid

datatype error =
    ValidationError "(string \<times> problem) list"
  | TypeError
  | AttributeError
  | OverflowError

section \<open>The library's parsers\<close>

text \<open>
  The models are pydantic models (the directory constructs \<^verbatim>\<open>HttpUrl(url)\<close> directly, the
  pydantic 2 interface). What pydantic makes of a string is not written in the
  repository and is a parameter of the model: the URL a string validates to as an
  \<^verbatim>\<open>HttpUrl\<close>, and the number or truth value a string is coerced to where a field of type
  \<^verbatim>\<open>int\<close>, \<^verbatim>\<open>float\<close> or \<^verbatim>\<open>bool\<close> receives a string.
\<close>

record lib =
  http_url :: "string \<Rightarrow> string option"
  str_as_int :: "string \<Rightarrow> int option"
  str_as_float :: "string \<Rightarrow> pyfloat option"
  str_as_bool :: "string \<Rightarrow> bool option"

text \<open>Modelled from the spec: pydantic's \<^verbatim>\<open>HttpUrl\<close> is not part of the repository; the spec
  asks for an absolute URL, scheme and host required. This instance accepts a string
  that starts with \<^verbatim>\<open>http://\<close> or \<^verbatim>\<open>https://\<close> and goes on with a host, that is with a
  character other than \<^verbatim>\<open>/\<close>, \<^verbatim>\<open>?\<close> and \<^verbatim>\<open>#\<close>; it gives the string as it is, where the
  library also brings the URL into its normal form; and it coerces no string to a number
  or a truth value. It serves to evaluate the model on concrete documents.\<close>

definition has_host :: "string \<Rightarrow> bool" where
  "has_host rest = (case rest of [] \<Rightarrow> False | c # _ \<Rightarrow> c \<notin> set ''/?#'')"

definition absolute_url :: "string \<Rightarrow> string option" where
  "absolute_url s =
     (if (take 7 s = ''http://'' \<and> has_host (drop 7 s)) \<or>
         (take 8 s = ''https://'' \<and> has_host (drop 8 s))
      then Some s else None)"

definition plain_lib :: lib where
  "plain_lib = \<lparr> http_url = absolute_url, str_as_int = (\<lambda>s. None),
                 str_as_float = (\<lambda>s. None), str_as_bool = (\<lambda>s. None) \<rparr>"

definition HttpUrl :: "lib \<Rightarrow> json \<Rightarrow> string option" where
  "HttpUrl L j = (case j of JStr s \<Rightarrow> http_url L s | _ \<Rightarrow> None)"

section \<open>The directory\<close>

record SpaceDirectory =
  spaces :: "(string \<times> string) list"

text \<open>
  \<^verbatim>\<open>SpaceDirectory.from_dict\<close>: the loop stores \<^verbatim>\<open>HttpUrl(url)\<close> under each name and stops
  with the validation error of the first value that is not a URL. \<^verbatim>\<open>data.items()\<close> of a
  value that is not a dict raises \<^verbatim>\<open>AttributeError\<close>. The final \<^verbatim>\<open>cls(spaces=spaces)\<close>
  receives URLs that are already validated.
\<close>

fun from_dict_loop ::
  "lib \<Rightarrow> (string \<times> string) list \<Rightarrow> dict \<Rightarrow> error + (string \<times> string) list" where
  "from_dict_loop L acc [] = Inr acc"
| "from_dict_loop L acc ((name, url) # rest) =
     (case HttpUrl L url of
        None \<Rightarrow> Inl (ValidationError [(''url'', Invalid)])
      | Some u \<Rightarrow> from_dict_loop L (setitem name u acc) rest)"

definition from_dict :: "lib \<Rightarrow> json \<Rightarrow> error + SpaceDirectory" where
  "from_dict L data =
     (case data of
        JObj kvs \<Rightarrow>
          (case from_dict_loop L [] kvs of
             Inl e \<Rightarrow> Inl e
           | Inr acc \<Rightarrow> Inr \<lparr> spaces = acc \<rparr>)
      | _ \<Rightarrow> Inl AttributeError)"

section \<open>Validation of field types\<close>

text \<open>
  What pydantic accepts for a declared field type, on the Python values a JSON document
  consists of; \<open>None\<close> is a value that is not valid. A \<^verbatim>\<open>str\<close> field takes a string. An
  \<^verbatim>\<open>int\<close> field takes an int, a bool (0 or 1), a float without fractional part within
  the 64-bit range and a string the library parses; a \<^verbatim>\<open>float\<close> field takes a float, an int, a bool and a
  string the library parses; a \<^verbatim>\<open>bool\<close> field takes a bool, the numbers 0 and 1 and a
  string the library parses.
\<close>

definition v_str :: "json \<Rightarrow> string option" where
  "v_str j = (case j of JStr s \<Rightarrow> Some s | _ \<Rightarrow> None)"

fun v_int :: "lib \<Rightarrow> json \<Rightarrow> int option" where
  "v_int L (JInt n) = Some n"
| "v_int L (JBool b) = Some (if b then 1 else 0)"
| "v_int L (JFloat (Fin x)) =
     (if x = of_int \<lfloor>x\<rfloor> \<and> - (2 ^ 63) < x \<and> x < 2 ^ 63 then Some \<lfloor>x\<rfloor> else None)"
| "v_int L (JStr s) = str_as_int L s"
| "v_int L _ = None"

fun v_float :: "lib \<Rightarrow> json \<Rightarrow> pyfloat option" where
  "v_float L (JFloat f) = Some f"
| "v_float L (JInt n) = Some (Fin (of_int n))"
| "v_float L (JBool b) = Some (Fin (if b then 1 else 0))"
| "v_float L (JStr s) = str_as_float L s"
| "v_float L _ = None"

fun v_bool :: "lib \<Rightarrow> json \<Rightarrow> bool option" where
  "v_bool L (JBool b) = Some b"
| "v_bool L (JInt n) = (if n = 0 then Some False else if n = 1 then Some True else None)"
| "v_bool L (JFloat (Fin x)) = (if x = 0 then Some False else if x = 1 then Some True else None)"
| "v_bool L (JStr s) = str_as_bool L s"
| "v_bool L _ = None"

text \<open>\<^verbatim>\<open>Field(None, ge=lo, le=hi)\<close> on a float: the comparisons fail for \<^verbatim>\<open>NaN\<close> and the
  infinities.\<close>

definition v_float_range :: "lib \<Rightarrow> real \<Rightarrow> real \<Rightarrow> json \<Rightarrow> pyfloat option" where
  "v_float_range L lo hi j =
     (case v_float L j of
        Some (Fin x) \<Rightarrow> (if lo \<le> x \<and> x \<le> hi then Some (Fin x) else None)
      | _ \<Rightarrow> None)"

text \<open>\<^verbatim>\<open>Optional[T]\<close>, \<^verbatim>\<open>List[T]\<close>, \<^verbatim>\<open>Dict[str, T]\<close> and \<^verbatim>\<open>Any\<close>. A list or dict is valid
  when every element is.\<close>

definition v_optional :: "(json \<Rightarrow> 'a option) \<Rightarrow> json \<Rightarrow> 'a option option" where
  "v_optional v j = (case j of JNull \<Rightarrow> Some None | _ \<Rightarrow> map_option Some (v j))"

definition v_list :: "(json \<Rightarrow> 'a option) \<Rightarrow> json \<Rightarrow> 'a list option" where
  "v_list v j = (case j of JArr xs \<Rightarrow> those (map v xs) | _ \<Rightarrow> None)"

definition v_dict :: "(json \<Rightarrow> 'a option) \<Rightarrow> json \<Rightarrow> (string \<times> 'a) list option" where
  "v_dict v j =
     (case j of
        JObj kvs \<Rightarrow> those (map (\<lambda>(k, x). map_option (Pair k) (v x)) kvs)
      | _ \<Rightarrow> None)"

definition v_any :: "json \<Rightarrow> json option" where
  "v_any j = Some j"

text \<open>A field of a nested model, read from the dict the model is built from: a field
  with default \<^verbatim>\<open>None\<close> keeps the default when its key is missing; a required field
  is an error then.\<close>

definition opt_field :: "dict \<Rightarrow> string \<Rightarrow> (json \<Rightarrow> 'a option) \<Rightarrow> 'a option option" where
  "opt_field d k v = (case map_of d k of None \<Rightarrow> Some None | Some j \<Rightarrow> v_optional v j)"

definition req_field :: "dict \<Rightarrow> string \<Rightarrow> (json \<Rightarrow> 'a option) \<Rightarrow> 'a option" where
  "req_field d k v = (case map_of d k of None \<Rightarrow> None | Some j \<Rightarrow> v j)"

section \<open>The nested models\<close>

text \<open>A model is built from a dict; keys that are no field of the model are ignored; a
  value that is not a dict is not valid.\<close>

record SpaceContact =
  email :: "string option"
  irc :: "string option"
  ml :: "string option"
  twitter :: "string option"
  facebook :: "string option"
  mastodon :: "string option"
  phone :: "string option"
  sip :: "string option"
  jabber :: "string option"
  issue_mail :: "string option"

definition validate_SpaceContact :: "json \<Rightarrow> SpaceContact option" where
  "validate_SpaceContact j =
     (case j of
        JObj d \<Rightarrow> do {
          a \<leftarrow> opt_field d ''email'' v_str;
          b \<leftarrow> opt_field d ''irc'' v_str;
          c \<leftarrow> opt_field d ''ml'' v_str;
          e \<leftarrow> opt_field d ''twitter'' v_str;
          f \<leftarrow> opt_field d ''facebook'' v_str;
          g \<leftarrow> opt_field d ''mastodon'' v_str;
          h \<leftarrow> opt_field d ''phone'' v_str;
          i \<leftarrow> opt_field d ''sip'' v_str;
          k \<leftarrow> opt_field d ''jabber'' v_str;
          l \<leftarrow> opt_field d ''issue_mail'' v_str;
          Some \<lparr> email = a, irc = b, ml = c, twitter = e, facebook = f, mastodon = g,
                 phone = h, sip = i, jabber = k, issue_mail = l \<rparr> }
      | _ \<Rightarrow> None)"

record SpaceLocation =
  address :: "string option"
  lat :: "pyfloat option"
  lon :: "pyfloat option"
  timezone :: "string option"

definition validate_SpaceLocation :: "lib \<Rightarrow> json \<Rightarrow> SpaceLocation option" where
  "validate_SpaceLocation L j =
     (case j of
        JObj d \<Rightarrow> do {
          a \<leftarrow> opt_field d ''address'' v_str;
          b \<leftarrow> opt_field d ''lat'' (v_float_range L (-90) 90);
          c \<leftarrow> opt_field d ''lon'' (v_float_range L (-180) 180);
          e \<leftarrow> opt_field d ''timezone'' v_str;
          Some \<lparr> address = a, lat = b, lon = c, timezone = e \<rparr> }
      | _ \<Rightarrow> None)"

record SpaceStateIcon =
  icon_open :: string
  icon_closed :: string

definition validate_SpaceStateIcon :: "lib \<Rightarrow> json \<Rightarrow> SpaceStateIcon option" where
  "validate_SpaceStateIcon L j =
     (case j of
        JObj d \<Rightarrow> do {
          a \<leftarrow> req_field d ''open'' (HttpUrl L);
          b \<leftarrow> req_field d ''closed'' (HttpUrl L);
          Some \<lparr> icon_open = a, icon_closed = b \<rparr> }
      | _ \<Rightarrow> None)"

text \<open>
  \<^verbatim>\<open>SpaceState.validate_timestamp\<close> runs on the raw value of \<^verbatim>\<open>lastchange\<close>, before the
  field's type is checked. \<^verbatim>\<open>int(v)\<close> truncates a float towards zero; it raises
  \<^verbatim>\<open>ValueError\<close> for \<^verbatim>\<open>NaN\<close> (which pydantic reports as a validation error of the
  field) and \<^verbatim>\<open>OverflowError\<close> for an infinity. \<^verbatim>\<open>v < 0\<close> compares a bool as 0 or 1 and
  raises \<^verbatim>\<open>TypeError\<close> for a string, a list and a dict.
\<close>

datatype 'a outcome = Valid 'a | Failed problem | Raised error

definition of_option :: "'a option \<Rightarrow> 'a outcome" where
  "of_option x = (case x of None \<Rightarrow> Failed Invalid | Some y \<Rightarrow> Valid y)"

definition int_of_float :: "real \<Rightarrow> int" where
  "int_of_float x = (if 0 \<le> x then \<lfloor>x\<rfloor> else \<lceil>x\<rceil>)"

fun validate_timestamp :: "json \<Rightarrow> json outcome" where
  "validate_timestamp JNull = Valid JNull"
| "validate_timestamp (JFloat (Fin x)) =
     (let v = int_of_float x in if v < 0 then Valid JNull else Valid (JInt v))"
| "validate_timestamp (JFloat NaN) = Failed Invalid"
| "validate_timestamp (JFloat _) = Raised OverflowError"
| "validate_timestamp (JInt v) = (if v < 0 then Valid JNull else Valid (JInt v))"
| "validate_timestamp (JBool b) = Valid (JBool b)"
| "validate_timestamp _ = Raised TypeError"

text \<open>\<^verbatim>\<open>Union[int, float]\<close>: the member that matches the value's own type is taken; a bool
  or a string is coerced by the first member that accepts it.\<close>

datatype number = IntNum int | FloatNum pyfloat

fun v_int_or_float :: "lib \<Rightarrow> json \<Rightarrow> number option" where
  "v_int_or_float L (JInt n) = Some (IntNum n)"
| "v_int_or_float L (JFloat f) = Some (FloatNum f)"
| "v_int_or_float L (JBool b) = Some (IntNum (if b then 1 else 0))"
| "v_int_or_float L (JStr s) =
     (case str_as_int L s of
        Some n \<Rightarrow> Some (IntNum n)
      | None \<Rightarrow> map_option FloatNum (str_as_float L s))"
| "v_int_or_float L _ = None"

definition lastchange_field :: "lib \<Rightarrow> dict \<Rightarrow> number option outcome" where
  "lastchange_field L d =
     (case map_of d ''lastchange'' of
        None \<Rightarrow> Valid None
      | Some j \<Rightarrow>
          (case validate_timestamp j of
             Valid v \<Rightarrow> of_option (v_optional (v_int_or_float L) v)
           | Failed p \<Rightarrow> Failed p
           | Raised e \<Rightarrow> Raised e))"

record SpaceState =
  state_open :: "bool option"
  lastchange :: "number option"
  trigger_person :: "string option"
  message :: "string option"
  state_icon :: "SpaceStateIcon option"

text \<open>The fields are validated in the order of their declaration; an exception of the
  timestamp validator ends the validation, an invalid field does not.\<close>

definition validate_SpaceState :: "lib \<Rightarrow> json \<Rightarrow> SpaceState outcome" where
  "validate_SpaceState L j =
     (case j of
        JObj d \<Rightarrow>
          (case lastchange_field L d of
             Raised e \<Rightarrow> Raised e
           | Failed p \<Rightarrow> Failed Invalid
           | Valid b \<Rightarrow>
               of_option (do {
                 a \<leftarrow> opt_field d ''open'' (v_bool L);
                 c \<leftarrow> opt_field d ''trigger_person'' v_str;
                 e \<leftarrow> opt_field d ''message'' v_str;
                 f \<leftarrow> opt_field d ''icon'' (validate_SpaceStateIcon L);
                 Some \<lparr> state_open = a, lastchange = b, trigger_person = c, message = e,
                        state_icon = f \<rparr> }))
      | _ \<Rightarrow> Failed Invalid)"

text \<open>\<^verbatim>\<open>Union[Dict[str, Any], str]\<close> and \<^verbatim>\<open>Union[HttpUrl, SpaceProject]\<close>.\<close>

datatype event_extra = ExtraDict dict | ExtraStr string

definition v_event_extra :: "json \<Rightarrow> event_extra option" where
  "v_event_extra j =
     (case j of JObj d \<Rightarrow> Some (ExtraDict d) | JStr s \<Rightarrow> Some (ExtraStr s) | _ \<Rightarrow> None)"

record SpaceEvent =
  event_name :: string
  event_type :: "string option"
  timestamp :: "int option"
  extra :: "event_extra option"

definition validate_SpaceEvent :: "lib \<Rightarrow> json \<Rightarrow> SpaceEvent option" where
  "validate_SpaceEvent L j =
     (case j of
        JObj d \<Rightarrow> do {
          a \<leftarrow> req_field d ''name'' v_str;
          b \<leftarrow> opt_field d ''type'' v_str;
          c \<leftarrow> opt_field d ''timestamp'' (v_int L);
          e \<leftarrow> opt_field d ''extra'' v_event_extra;
          Some \<lparr> event_name = a, event_type = b, timestamp = c, extra = e \<rparr> }
      | _ \<Rightarrow> None)"

record SpaceProject =
  project_name :: "string option"
  project_url :: string
  description :: "string option"
  project_type :: "string option"

definition validate_SpaceProject :: "lib \<Rightarrow> json \<Rightarrow> SpaceProject option" where
  "validate_SpaceProject L j =
     (case j of
        JObj d \<Rightarrow> do {
          a \<leftarrow> opt_field d ''name'' v_str;
          b \<leftarrow> req_field d ''url'' (HttpUrl L);
          c \<leftarrow> opt_field d ''description'' v_str;
          e \<leftarrow> opt_field d ''type'' v_str;
          Some \<lparr> project_name = a, project_url = b, description = c, project_type = e \<rparr> }
      | _ \<Rightarrow> None)"

datatype project = ProjectUrl string | Project SpaceProject

definition v_project :: "lib \<Rightarrow> json \<Rightarrow> project option" where
  "v_project L j =
     (case j of
        JStr s \<Rightarrow> map_option ProjectUrl (http_url L s)
      | _ \<Rightarrow> map_option Project (validate_SpaceProject L j))"

section \<open>Sensors\<close>

text \<open>
  \<^verbatim>\<open>SpaceStatus.validate_sensors\<close> runs on the raw value of \<^verbatim>\<open>sensors\<close>. \<^verbatim>\<open>v.items()\<close>
  raises \<^verbatim>\<open>AttributeError\<close> for a value that is not a dict. \<^verbatim>\<open>for sensor in sensors\<close>
  walks the items of a list, the characters of a string and the keys of a dict, and
  raises \<^verbatim>\<open>TypeError\<close> for a number or a bool.
\<close>

fun iterate :: "json \<Rightarrow> json list option" where
  "iterate (JArr xs) = Some xs"
| "iterate (JStr s) = Some (map (\<lambda>c. JStr [c]) s)"
| "iterate (JObj kvs) = Some (map (\<lambda>kv. JStr (fst kv)) kvs)"
| "iterate _ = None"

definition clean_sensor :: "string \<Rightarrow> dict \<Rightarrow> dict" where
  "clean_sensor sensor_type sensor =
     (let cleaned_sensor = filter (\<lambda>kv. snd kv \<noteq> JNull) sensor
      in if \<not> has_key ''name'' cleaned_sensor
         then setitem ''name'' (JStr (sensor_type @ ''_sensor'')) cleaned_sensor
         else cleaned_sensor)"

fun clean_sensor_list :: "string \<Rightarrow> json list \<Rightarrow> json list" where
  "clean_sensor_list sensor_type [] = []"
| "clean_sensor_list sensor_type (JNull # rest) = clean_sensor_list sensor_type rest"
| "clean_sensor_list sensor_type (JObj sensor # rest) =
     JObj (clean_sensor sensor_type sensor) # clean_sensor_list sensor_type rest"
| "clean_sensor_list sensor_type (sensor # rest) =
     sensor # clean_sensor_list sensor_type rest"

fun sensors_loop :: "dict \<Rightarrow> dict \<Rightarrow> error + dict" where
  "sensors_loop cleaned_sensors [] = Inr cleaned_sensors"
| "sensors_loop cleaned_sensors ((sensor_type, sensors) # rest) =
     (if sensors = JNull then sensors_loop cleaned_sensors rest
      else (case iterate sensors of
              None \<Rightarrow> Inl TypeError
            | Some xs \<Rightarrow>
                (let cleaned_sensor_list = clean_sensor_list sensor_type xs
                 in if cleaned_sensor_list \<noteq> []
                    then sensors_loop
                           (setitem sensor_type (JArr cleaned_sensor_list) cleaned_sensors) rest
                    else sensors_loop cleaned_sensors rest)))"

definition validate_sensors :: "json \<Rightarrow> json outcome" where
  "validate_sensors v =
     (case v of
        JNull \<Rightarrow> Valid JNull
      | JObj kvs \<Rightarrow>
          (case sensors_loop [] kvs of
             Inl e \<Rightarrow> Raised e
           | Inr cleaned_sensors \<Rightarrow>
               Valid (if cleaned_sensors \<noteq> [] then JObj cleaned_sensors else JNull))
      | _ \<Rightarrow> Raised AttributeError)"

text \<open>
  The cleaned value is then checked against
  \<^verbatim>\<open>Optional[Dict[str, List[Union[SpaceSensor, Dict[str, Any], None]]]]\<close>. A reading that
  is a dict becomes a \<^verbatim>\<open>SpaceSensor\<close> when it validates as one: the keys that are no field
  of the model are lost and the fields without a key are \<^verbatim>\<open>None\<close>. A dict that does not
  validate as a \<^verbatim>\<open>SpaceSensor\<close> stays the dict it is. A reading that is neither a dict nor
  \<^verbatim>\<open>None\<close> is not valid. The \<^verbatim>\<open>value\<close> of a sensor is a
  \<^verbatim>\<open>Union[float, int, str, None]\<close>: a float, an int and a string are taken as they are, a
  bool by the first member, as the float 0 or 1.
\<close>

datatype sensor_value = FloatValue pyfloat | IntValue int | StrValue string

fun v_sensor_value :: "json \<Rightarrow> sensor_value option" where
  "v_sensor_value (JFloat f) = Some (FloatValue f)"
| "v_sensor_value (JInt n) = Some (IntValue n)"
| "v_sensor_value (JStr s) = Some (StrValue s)"
| "v_sensor_value (JBool b) = Some (FloatValue (Fin (if b then 1 else 0)))"
| "v_sensor_value _ = None"

record SpaceSensor =
  sensor_name :: "string option"
  sensor_unit :: "string option"
  sensor_value :: "sensor_value option"
  sensor_location :: "string option"
  sensor_names :: "string list option"
  sensor_timestamp :: "int option"

definition validate_SpaceSensor :: "lib \<Rightarrow> json \<Rightarrow> SpaceSensor option" where
  "validate_SpaceSensor L j =
     (case j of
        JObj d \<Rightarrow> do {
          a \<leftarrow> opt_field d ''name'' v_str;
          b \<leftarrow> opt_field d ''unit'' v_str;
          c \<leftarrow> opt_field d ''value'' v_sensor_value;
          e \<leftarrow> opt_field d ''location'' v_str;
          f \<leftarrow> opt_field d ''names'' (v_list v_str);
          g \<leftarrow> opt_field d ''timestamp'' (v_int L);
          Some \<lparr> sensor_name = a, sensor_unit = b, sensor_value = c, sensor_location = e,
                 sensor_names = f, sensor_timestamp = g \<rparr> }
      | _ \<Rightarrow> None)"

datatype sensor = SensorModel SpaceSensor | SensorDict dict | SensorNone

definition v_sensor :: "lib \<Rightarrow> json \<Rightarrow> sensor option" where
  "v_sensor L j =
     (case j of
        JObj d \<Rightarrow>
          (case validate_SpaceSensor L j of
             Some s \<Rightarrow> Some (SensorModel s)
           | None \<Rightarrow> Some (SensorDict d))
      | JNull \<Rightarrow> Some SensorNone
      | _ \<Rightarrow> None)"

definition sensors_field :: "lib \<Rightarrow> dict \<Rightarrow> (string \<times> sensor list) list option outcome" where
  "sensors_field L d =
     (case map_of d ''sensors'' of
        None \<Rightarrow> Valid None
      | Some j \<Rightarrow>
          (case validate_sensors j of
             Valid v \<Rightarrow> of_option (v_optional (v_dict (v_list (v_sensor L))) v)
           | Failed p \<Rightarrow> Failed p
           | Raised e \<Rightarrow> Raised e))"

section \<open>The status document\<close>

record SpaceStatus =
  api_compatibility :: "string list option"
  api :: "string option"
  space :: string
  logo :: "string option"
  url :: "string option"
  location :: "SpaceLocation option"
  contact :: "SpaceContact option"
  issue_report_channels :: "string list option"
  state :: "SpaceState option"
  events :: "SpaceEvent list option"
  projects :: "project list option"
  spacefed :: "(string \<times> bool) list option"
  cam :: "string list option"
  feed :: "(string \<times> string) list option"
  radio_show :: "string list option"
  cache :: "dict option"
  projects_url :: "string option"
  sensors :: "(string \<times> sensor list) list option"
  links :: "dict list option"
  icon :: "SpaceStateIcon option"
  times_field :: "dict option"

text \<open>\<^verbatim>\<open>SpaceStatus.handle_api_versions\<close>, the root validator that runs on the raw dict
  before any field.\<close>

definition handle_api_versions :: "dict \<Rightarrow> dict" where
  "handle_api_versions values =
     (let values =
            (if has_key ''api'' values \<and> \<not> has_key ''api_compatibility'' values
             then (let (api_version, values) = pop ''api'' values
                   in if truthy api_version
                      then setitem ''api_compatibility'' (JArr [api_version]) values
                      else values)
             else values)
      in if \<not> truthy (get values ''api_compatibility'') \<and> \<not> truthy (get values ''api'')
         then setitem ''api_compatibility'' (JArr [JStr ''14'']) values
         else values)"

text \<open>A field of the status document: valid, failed (missing or invalid), or ended by
  an exception of a validator of the repository.\<close>

definition optional :: "dict \<Rightarrow> string \<Rightarrow> (json \<Rightarrow> 'a option) \<Rightarrow> 'a option outcome" where
  "optional d k v = of_option (opt_field d k v)"

definition required :: "dict \<Rightarrow> string \<Rightarrow> (json \<Rightarrow> 'a option) \<Rightarrow> 'a outcome" where
  "required d k v = (case map_of d k of None \<Rightarrow> Failed Missing | Some j \<Rightarrow> of_option (v j))"

definition state_field :: "lib \<Rightarrow> dict \<Rightarrow> SpaceState option outcome" where
  "state_field L d =
     (case map_of d ''state'' of
        None \<Rightarrow> Valid None
      | Some JNull \<Rightarrow> Valid None
      | Some j \<Rightarrow>
          (case validate_SpaceState L j of
             Valid s \<Rightarrow> Valid (Some s)
           | Failed p \<Rightarrow> Failed Invalid
           | Raised e \<Rightarrow> Raised e))"

text \<open>
  The fields are validated one after the other, in the order of their declaration. The
  errors of the fields are collected into one \<^verbatim>\<open>ValidationError\<close>, raised at the end; an
  exception of a validator leaves the constructor at once.
\<close>

fun collect :: "error + ('a \<Rightarrow> 'b) \<Rightarrow> string \<Rightarrow> 'a outcome \<Rightarrow> error + 'b" where
  "collect (Inr f) k (Valid x) = Inr (f x)"
| "collect (Inr f) k (Failed p) = Inl (ValidationError [(k, p)])"
| "collect (Inr f) k (Raised e) = Inl e"
| "collect (Inl (ValidationError es)) k (Valid x) = Inl (ValidationError es)"
| "collect (Inl (ValidationError es)) k (Failed p) = Inl (ValidationError (es @ [(k, p)]))"
| "collect (Inl (ValidationError es)) k (Raised e) = Inl e"
| "collect (Inl e) k x = Inl e"

text \<open>\<^verbatim>\<open>SpaceStatus(**space_data)\<close>: the normalization of a raw status document.
  \<^verbatim>\<open>**space_data\<close> raises \<^verbatim>\<open>TypeError\<close> for a value that is not a dict.\<close>

definition construct_SpaceStatus :: "lib \<Rightarrow> json \<Rightarrow> error + SpaceStatus" where
  "construct_SpaceStatus L space_data =
     (case space_data of
        JObj kvs \<Rightarrow>
          (let d = handle_api_versions kvs;
               r = Inr SpaceStatus.make;
               r = collect r ''api_compatibility'' (optional d ''api_compatibility'' (v_list v_str));
               r = collect r ''api'' (optional d ''api'' v_str);
               r = collect r ''space'' (required d ''space'' v_str);
               r = collect r ''logo'' (optional d ''logo'' (HttpUrl L));
               r = collect r ''url'' (optional d ''url'' (HttpUrl L));
               r = collect r ''location'' (optional d ''location'' (validate_SpaceLocation L));
               r = collect r ''contact'' (optional d ''contact'' validate_SpaceContact);
               r = collect r ''issue_report_channels''
                     (optional d ''issue_report_channels'' (v_list v_str));
               r = collect r ''state'' (state_field L d);
               r = collect r ''events'' (optional d ''events'' (v_list (validate_SpaceEvent L)));
               r = collect r ''projects'' (optional d ''projects'' (v_list (v_project L)));
               r = collect r ''spacefed'' (optional d ''spacefed'' (v_dict (v_bool L)));
               r = collect r ''cam'' (optional d ''cam'' (v_list (HttpUrl L)));
               r = collect r ''feed'' (optional d ''feed'' (v_dict (HttpUrl L)));
               r = collect r ''radio_show'' (optional d ''radio_show'' (v_list (HttpUrl L)));
               r = collect r ''cache'' (optional d ''cache'' (v_dict v_any));
               r = collect r ''projects_url'' (optional d ''projects_url'' (HttpUrl L));
               r = collect r ''sensors'' (sensors_field L d);
               r = collect r ''links'' (optional d ''links'' (v_list (v_dict v_any)));
               r = collect r ''icon'' (optional d ''icon'' (validate_SpaceStateIcon L));
               r = collect r ''times'' (optional d ''times'' (v_dict v_any))
           in r)
      | _ \<Rightarrow> Inl TypeError)"

section \<open>The client\<close>

text \<open>
  What the transport gives for one request, after the session's retries:
  \<^verbatim>\<open>session.get\<close> raises a \<^verbatim>\<open>RequestException\<close> (no connection, timeout, retries
  exhausted), or returns a response with a status code, whose body \<^verbatim>\<open>response.json()\<close>
  decodes or rejects.
\<close>

datatype body = Json json | NotJson

datatype response = RequestException | Response nat body

text \<open>\<^verbatim>\<open>SpaceAPIClient.get_space_status\<close>, from the response of its request.
  \<^verbatim>\<open>raise_for_status\<close> raises for the codes 400 to 599; every exception is caught and
  gives \<^verbatim>\<open>None\<close>.\<close>

definition get_space_status :: "lib \<Rightarrow> response \<Rightarrow> SpaceStatus option" where
  "get_space_status L resp =
     (case resp of
        RequestException \<Rightarrow> None
      | Response code b \<Rightarrow>
          (if 400 \<le> code \<and> code < 600 then None
           else (case b of
                   NotJson \<Rightarrow> None
                 | Json space_data \<Rightarrow>
                     (case construct_SpaceStatus L space_data of
                        Inl e \<Rightarrow> None
                      | Inr status \<Rightarrow> Some status))))"

text \<open>
  \<^verbatim>\<open>SpaceAPIClient.get_multiple_space_statuses\<close>. Every URL of \<^verbatim>\<open>space_urls\<close> is submitted
  as a task \<^verbatim>\<open>fetch_space\<close> with a request of its own; \<^verbatim>\<open>as_completed\<close> yields the tasks
  in the order in which they finish, which is any order; the loop stores each result
  under its URL. The argument \<open>completed\<close> lists the submitted tasks, each a URL with
  the response of its request, in the order in which they finish.
\<close>

definition fetch_space :: "lib \<Rightarrow> string \<times> response \<Rightarrow> string \<times> SpaceStatus option" where
  "fetch_space L task = (fst task, get_space_status L (snd task))"

definition gather ::
  "(string \<times> SpaceStatus option) list \<Rightarrow> (string \<times> SpaceStatus option) list" where
  "gather completed = fold (\<lambda>(url, status) results. setitem url status results) completed []"

definition get_multiple_space_statuses ::
  "lib \<Rightarrow> (string \<times> response) list \<Rightarrow> (string \<times> SpaceStatus option) list" where
  "get_multiple_space_statuses L completed = gather (map (fetch_space L) completed)"

section \<open>Reading a failure\<close>

text \<open>
  \<open>fails_with (k, p) res\<close>: the construction failed, and if it failed with a
  \<^verbatim>\<open>ValidationError\<close>, the error lists the field \<open>k\<close> with the problem \<open>p\<close>. The other
  failures are the exceptions of the repository's validators. \<open>no_exception res\<close>: no
  such exception has ended the construction so far.
\<close>

definition fails_with :: "string \<times> problem \<Rightarrow> error + 'a \<Rightarrow> bool" where
  "fails_with kp res =
     (case res of Inl (ValidationError es) \<Rightarrow> kp \<in> set es | Inl e \<Rightarrow> True | Inr r \<Rightarrow> False)"

definition no_exception :: "error + 'a \<Rightarrow> bool" where
  "no_exception res =
     (case res of Inl (ValidationError es) \<Rightarrow> True | Inl e \<Rightarrow> False | Inr r \<Rightarrow> True)"

section \<open>Writing a record back\<close>




















section \<open>Basic facts about the model\<close>

lemmas model_defs = construct_SpaceStatus_def handle_api_versions_def has_key_def get_def pop_def
  setitem_def optional_def required_def opt_field_def req_field_def of_option_def
  v_optional_def v_list_def v_dict_def v_any_def v_str_def HttpUrl_def state_field_def
  validate_SpaceState_def lastchange_field_def sensors_field_def validate_sensors_def
  clean_sensor_def v_sensor_def validate_SpaceSensor_def validate_SpaceLocation_def validate_SpaceContact_def
  validate_SpaceStateIcon_def validate_SpaceEvent_def validate_SpaceProject_def v_project_def
  v_float_range_def int_of_float_def SpaceStatus.make_def Let_def

lemma has_key_map_of: "has_key k d \<longleftrightarrow> map_of d k \<noteq> None"
  by (simp add: has_key_def map_of_eq_None_iff)

lemma those_length: "those xs = Some ys \<Longrightarrow> length ys = length xs"
  by (induction xs arbitrary: ys) (auto split: option.splits)

lemma optional_Valid:
  "optional d k v = Valid x \<longleftrightarrow>
     (case map_of d k of None \<Rightarrow> x = None | Some JNull \<Rightarrow> x = None
      | Some j \<Rightarrow> (\<exists>y. v j = Some y \<and> x = Some y))"
  by (auto simp: optional_def opt_field_def of_option_def v_optional_def
      split: option.splits json.splits)

lemma required_space:
  "required d ''space'' v_str = Valid s \<longleftrightarrow> map_of d ''space'' = Some (JStr s)"
  by (auto simp: required_def of_option_def v_str_def split: option.splits json.splits)

subsection \<open>The root validator\<close>

lemma handle_other:
  "k \<noteq> ''api'' \<Longrightarrow> k \<noteq> ''api_compatibility'' \<Longrightarrow>
   map_of (handle_api_versions kvs) k = map_of kvs k"
  by (simp add: handle_api_versions_def Let_def pop_def setitem_def update_conv' delete_conv'
      split: prod.splits)

lemma handle_legacy:
  assumes "map_of kvs ''api'' = Some v" "truthy v" "map_of kvs ''api_compatibility'' = None"
  shows "map_of (handle_api_versions kvs) ''api_compatibility'' = Some (JArr [v])"
    and "map_of (handle_api_versions kvs) ''api'' = None"
  using assms
  by (simp_all add: handle_api_versions_def Let_def pop_def get_def setitem_def has_key_map_of
      update_conv' delete_conv')

lemma handle_default:
  assumes "map_of kvs ''api_compatibility'' = None"
    and "map_of kvs ''api'' = None \<or> (\<exists>v. map_of kvs ''api'' = Some v \<and> \<not> truthy v)"
  shows "map_of (handle_api_versions kvs) ''api_compatibility'' = Some (JArr [JStr ''14''])"
    and "map_of (handle_api_versions kvs) ''api'' = None"
  using assms
  by (auto simp: handle_api_versions_def Let_def pop_def get_def setitem_def has_key_map_of
      update_conv' delete_conv')

lemma handle_truthy:
  "truthy (get (handle_api_versions kvs) ''api_compatibility'') \<or>
   truthy (get (handle_api_versions kvs) ''api'')"
  by (auto simp: handle_api_versions_def Let_def pop_def get_def setitem_def has_key_map_of
      update_conv' delete_conv' split: option.splits)

lemma version_field_invariant:
  assumes "optional (handle_api_versions kvs) ''api_compatibility'' (v_list v_str) = Valid ac"
    and "optional (handle_api_versions kvs) ''api'' v_str = Valid a"
  shows "(\<exists>vs. ac = Some vs \<and> vs \<noteq> []) \<or> (\<exists>s. a = Some s \<and> s \<noteq> [])"
proof -
  let ?d = "handle_api_versions kvs"
  from handle_truthy [of kvs] show ?thesis
  proof
    assume "truthy (get ?d ''api_compatibility'')"
    then obtain j where j: "map_of ?d ''api_compatibility'' = Some j" "truthy j"
      by (auto simp: get_def split: option.splits)
    with assms(1) obtain vs where vs: "v_list v_str j = Some vs" "ac = Some vs"
      by (cases j) (auto simp: optional_Valid)
    from vs(1) j(2) have "vs \<noteq> []"
      by (cases j) (auto simp: v_list_def dest: those_length)
    with vs(2) show ?thesis by simp
  next
    assume "truthy (get ?d ''api'')"
    then obtain j where j: "map_of ?d ''api'' = Some j" "truthy j"
      by (auto simp: get_def split: option.splits)
    with assms(2) obtain s where s: "v_str j = Some s" "a = Some s"
      by (cases j) (auto simp: optional_Valid)
    from s(1) j(2) have "s \<noteq> []"
      by (cases j) (auto simp: v_str_def)
    with s(2) show ?thesis by simp
  qed
qed

subsection \<open>Success: every field is valid\<close>

lemma collect_Inr:
  "collect b k x = Inr r \<longleftrightarrow> (\<exists>f y. b = Inr f \<and> x = Valid y \<and> r = f y)"
  by (cases "(b, k, x)" rule: collect.cases) auto

lemma construct_Inr_iff:
  "construct_SpaceStatus L (JObj kvs) = Inr r \<longleftrightarrow>
     (let d = handle_api_versions kvs in
        optional d ''api_compatibility'' (v_list v_str) = Valid (api_compatibility r) \<and>
        optional d ''api'' v_str = Valid (api r) \<and>
        required d ''space'' v_str = Valid (space r) \<and>
        optional d ''logo'' (HttpUrl L) = Valid (logo r) \<and>
        optional d ''url'' (HttpUrl L) = Valid (url r) \<and>
        optional d ''location'' (validate_SpaceLocation L) = Valid (location r) \<and>
        optional d ''contact'' validate_SpaceContact = Valid (contact r) \<and>
        optional d ''issue_report_channels'' (v_list v_str) = Valid (issue_report_channels r) \<and>
        state_field L d = Valid (state r) \<and>
        optional d ''events'' (v_list (validate_SpaceEvent L)) = Valid (events r) \<and>
        optional d ''projects'' (v_list (v_project L)) = Valid (projects r) \<and>
        optional d ''spacefed'' (v_dict (v_bool L)) = Valid (spacefed r) \<and>
        optional d ''cam'' (v_list (HttpUrl L)) = Valid (cam r) \<and>
        optional d ''feed'' (v_dict (HttpUrl L)) = Valid (feed r) \<and>
        optional d ''radio_show'' (v_list (HttpUrl L)) = Valid (radio_show r) \<and>
        optional d ''cache'' (v_dict v_any) = Valid (cache r) \<and>
        optional d ''projects_url'' (HttpUrl L) = Valid (projects_url r) \<and>
        sensors_field L d = Valid (sensors r) \<and>
        optional d ''links'' (v_list (v_dict v_any)) = Valid (links r) \<and>
        optional d ''icon'' (validate_SpaceStateIcon L) = Valid (icon r) \<and>
        optional d ''times'' (v_dict v_any) = Valid (times_field r))"
  by (cases r) (auto simp: construct_SpaceStatus_def Let_def collect_Inr SpaceStatus.make_def)

lemma construct_Inr_object:
  assumes "construct_SpaceStatus L doc = Inr r"
  obtains kvs where "doc = JObj kvs"
  using assms by (cases doc) (simp_all add: construct_SpaceStatus_def)

subsection \<open>Failure: what the error lists\<close>

lemma fails_with_collect:
  "fails_with kp b \<Longrightarrow> \<forall>es. x \<noteq> Raised (ValidationError es) \<Longrightarrow> fails_with kp (collect b k x)"
  by (cases "(b, k, x)" rule: collect.cases) (auto simp: fails_with_def split: error.splits)

lemma fails_with_first:
  "no_exception b \<Longrightarrow> fails_with (k, p) (collect b k (Failed p))"
  by (cases "(b, k, Failed p :: 'a outcome)" rule: collect.cases)
    (auto simp: fails_with_def no_exception_def)

lemma no_exception_collect:
  "no_exception b \<Longrightarrow> \<forall>e. x \<noteq> Raised e \<Longrightarrow> no_exception (collect b k x)"
  by (cases "(b, k, x)" rule: collect.cases) (auto simp: no_exception_def)

lemma no_exception_Inr: "no_exception (Inr f)"
  by (simp add: no_exception_def)

lemma optional_neq_Raised: "optional d k v \<noteq> Raised e"
  by (simp add: optional_def of_option_def split: option.splits)

lemma required_neq_Raised: "required d k v \<noteq> Raised e"
  by (simp add: required_def of_option_def split: option.splits)

lemma validate_timestamp_raises:
  "validate_timestamp j = Raised e \<Longrightarrow> e = TypeError \<or> e = OverflowError"
  by (cases j rule: validate_timestamp.cases) (auto simp: Let_def split: if_splits)

lemma state_field_neq_ValidationError: "state_field L d \<noteq> Raised (ValidationError es)"
  by (auto simp: state_field_def validate_SpaceState_def lastchange_field_def of_option_def
      split: option.splits json.splits outcome.splits dest: validate_timestamp_raises)

lemma sensors_loop_raises: "sensors_loop acc kvs = Inl e \<Longrightarrow> e = TypeError"
  by (induction acc kvs rule: sensors_loop.induct)
    (auto simp: Let_def split: if_splits option.splits)

lemma sensors_field_neq_ValidationError: "sensors_field L d \<noteq> Raised (ValidationError es)"
  by (auto simp: sensors_field_def validate_sensors_def of_option_def
      split: option.splits json.splits outcome.splits sum.splits dest: sensors_loop_raises)

lemmas collect_chain = fails_with_collect fails_with_first no_exception_collect no_exception_Inr
  optional_neq_Raised required_neq_Raised state_field_neq_ValidationError
  sensors_field_neq_ValidationError

lemma construct_fails_space:
  assumes "required (handle_api_versions kvs) ''space'' v_str = Failed p"
  shows "fails_with (''space'', p) (construct_SpaceStatus L (JObj kvs))"
  using assms by (simp add: construct_SpaceStatus_def Let_def collect_chain)

lemma construct_fails_location:
  assumes "optional (handle_api_versions kvs) ''location'' (validate_SpaceLocation L) = Failed p"
  shows "fails_with (''location'', p) (construct_SpaceStatus L (JObj kvs))"
  using assms by (simp add: construct_SpaceStatus_def Let_def collect_chain)

section \<open>The directory: all entries or none\<close>

lemma from_dict_loop_keys:
  "from_dict_loop L acc kvs = Inr r \<Longrightarrow> distinct (map fst kvs) \<Longrightarrow>
   fst ` set kvs \<inter> fst ` set acc = {} \<Longrightarrow> map fst r = map fst acc @ map fst kvs"
proof (induction L acc kvs rule: from_dict_loop.induct)
  case (1 L acc)
  then show ?case by simp
next
  case (2 L acc name url rest)
  then show ?case
    by (auto simp: setitem_def update_keys dom_update split: option.splits)
qed

lemma from_dict_loop_Inr:
  "\<forall>v \<in> snd ` set kvs. HttpUrl L v \<noteq> None \<Longrightarrow> \<exists>r. from_dict_loop L acc kvs = Inr r"
  by (induction L acc kvs rule: from_dict_loop.induct) (auto split: option.splits)

lemma from_dict_loop_Inl:
  "v \<in> snd ` set kvs \<Longrightarrow> HttpUrl L v = None \<Longrightarrow>
   from_dict_loop L acc kvs = Inl (ValidationError [(''url'', Invalid)])"
  by (induction L acc kvs rule: from_dict_loop.induct) (auto split: option.splits)

lemma from_dict_loop_lookup:
  "from_dict_loop L acc kvs = Inr r \<Longrightarrow> distinct (map fst kvs) \<Longrightarrow>
   map_of r k = (case map_of kvs k of None \<Rightarrow> map_of acc k | Some v \<Rightarrow> HttpUrl L v)"
proof (induction L acc kvs rule: from_dict_loop.induct)
  case (1 L acc)
  then show ?case by simp
next
  case (2 L acc name url rest)
  from "2.prems"(1) obtain u where u: "HttpUrl L url = Some u"
    and run: "from_dict_loop L (setitem name u acc) rest = Inr r"
    by (auto split: option.splits)
  from "2.prems"(2) have d: "distinct (map fst rest)" and fresh: "map_of rest name = None"
    by (auto simp: map_of_eq_None_iff)
  have ih: "map_of r k =
      (case map_of rest k of None \<Rightarrow> map_of (setitem name u acc) k | Some v \<Rightarrow> HttpUrl L v)"
    using "2.IH" [OF u run d] .
  show ?case
  proof (cases "k = name")
    case True
    with ih fresh u show ?thesis by (simp add: setitem_def update_conv')
  next
    case False
    with ih show ?thesis by (simp add: setitem_def update_conv' split: option.splits)
  qed
qed

text \<open>
  Claim C2, as the code has it. \<^verbatim>\<open>from_dict\<close> drops no entry: for a directory document
  that is an object (a dict, so with distinct names), it succeeds exactly when the value
  of every entry is a valid URL, and the mapping then has one entry for each entry of
  the document, in the same order and with the validated URL, so that its size is the
  number of entries whose value is a URL; as soon as one value is not a URL the whole
  parse fails with the validation error of that value.
\<close>

theorem from_dict_all_or_nothing:
  assumes "distinct (map fst kvs)"
  shows "((\<forall>v \<in> snd ` set kvs. HttpUrl L v \<noteq> None) \<longrightarrow>
            (\<exists>d. from_dict L (JObj kvs) = Inr d \<and> map fst (spaces d) = map fst kvs \<and>
                 length (spaces d) = length (filter (\<lambda>kv. HttpUrl L (snd kv) \<noteq> None) kvs) \<and>
                 (\<forall>kv \<in> set kvs. map_of (spaces d) (fst kv) = HttpUrl L (snd kv)))) \<and>
         ((\<exists>v \<in> snd ` set kvs. HttpUrl L v = None) \<longrightarrow>
            from_dict L (JObj kvs) = Inl (ValidationError [(''url'', Invalid)]))"
proof (intro conjI impI)
  assume ok: "\<forall>v \<in> snd ` set kvs. HttpUrl L v \<noteq> None"
  then obtain acc where acc: "from_dict_loop L [] kvs = Inr acc"
    using from_dict_loop_Inr by blast
  have keys: "map fst acc = map fst kvs"
    using from_dict_loop_keys [OF acc assms] by simp
  have all: "filter (\<lambda>kv. HttpUrl L (snd kv) \<noteq> None) kvs = kvs"
    using ok by (auto intro: filter_True)
  have "length acc = length kvs"
    using keys by (metis length_map)
  with all have len: "length acc = length (filter (\<lambda>kv. HttpUrl L (snd kv) \<noteq> None) kvs)"
    by simp
  have look: "map_of acc (fst kv) = HttpUrl L (snd kv)" if "kv \<in> set kvs" for kv
  proof -
    have "map_of kvs (fst kv) = Some (snd kv)"
      using that assms map_of_is_SomeI [of kvs "fst kv" "snd kv"] by simp
    then show ?thesis
      using from_dict_loop_lookup [OF acc assms, of "fst kv"] by simp
  qed
  show "\<exists>d. from_dict L (JObj kvs) = Inr d \<and> map fst (spaces d) = map fst kvs \<and>
          length (spaces d) = length (filter (\<lambda>kv. HttpUrl L (snd kv) \<noteq> None) kvs) \<and>
          (\<forall>kv \<in> set kvs. map_of (spaces d) (fst kv) = HttpUrl L (snd kv))"
    using acc keys len look by (simp add: from_dict_def)
next
  assume "\<exists>v \<in> snd ` set kvs. HttpUrl L v = None"
  then obtain v where "v \<in> snd ` set kvs" "HttpUrl L v = None" by blast
  then show "from_dict L (JObj kvs) = Inl (ValidationError [(''url'', Invalid)])"
    by (simp add: from_dict_def from_dict_loop_Inl)
qed

text \<open>Claim C2, witness: a directory of two URLs gives both entries; with a number in
  the place of the second URL the parse fails.\<close>

theorem from_dict_all_or_nothing_witness:
  "map_sum id spaces (from_dict plain_lib
       (JObj [(''a'', JStr ''https://a.example/status''), (''b'', JStr ''http://b.example/'')]))
     = Inr [(''a'', ''https://a.example/status''), (''b'', ''http://b.example/'')] \<and>
   from_dict plain_lib (JObj [(''a'', JStr ''https://a.example/status''), (''b'', JInt 7)])
     = Inl (ValidationError [(''url'', Invalid)])"
proof -
  let ?good = "[(''a'', JStr ''https://a.example/status''), (''b'', JStr ''http://b.example/'')]"
  let ?bad = "[(''a'', JStr ''https://a.example/status''), (''b'', JInt 7)]"
  have d1: "distinct (map fst ?good)" and d2: "distinct (map fst ?bad)" by simp_all
  have ok: "\<forall>v \<in> snd ` set ?good. HttpUrl plain_lib v \<noteq> None"
    by (simp add: HttpUrl_def plain_lib_def absolute_url_def has_host_def)
  have ko: "\<exists>v \<in> snd ` set ?bad. HttpUrl plain_lib v = None"
    by (simp add: HttpUrl_def)
  from from_dict_all_or_nothing [OF d1, of plain_lib] ok
  obtain d where d: "from_dict plain_lib (JObj ?good) = Inr d"
    by blast
  have "spaces d = [(''a'', ''https://a.example/status''), (''b'', ''http://b.example/'')]"
    using d by (auto simp: from_dict_def HttpUrl_def plain_lib_def absolute_url_def has_host_def setitem_def)
  moreover from from_dict_all_or_nothing [OF d2, of plain_lib] ko
  have "from_dict plain_lib (JObj ?bad) = Inl (ValidationError [(''url'', Invalid)])"
    by blast
  ultimately show ?thesis using d by simp
qed

text \<open>Claim C2, counterexample to the claim as stated: of two entries, the first is a
  URL and the second is not; the parse does not return a mapping of size one, it fails.\<close>

theorem from_dict_bad_entry_fails:
  "HttpUrl plain_lib (JStr ''https://a.example/status'') \<noteq> None \<and>
   HttpUrl plain_lib (JStr ''not a url'') = None \<and>
   from_dict plain_lib (JObj [(''a'', JStr ''https://a.example/status''), (''b'', JStr ''not a url'')])
     = Inl (ValidationError [(''url'', Invalid)])"
  by (simp add: from_dict_def HttpUrl_def plain_lib_def absolute_url_def has_host_def setitem_def)

section \<open>API versions\<close>

text \<open>
  Claim C4, as the code has it. For a status document without \<^verbatim>\<open>api_compatibility\<close> that
  normalizes: a legacy \<^verbatim>\<open>api\<close> field that is a non-empty string \<open>X\<close> gives the version
  list \<open>[X]\<close>; with no \<^verbatim>\<open>api\<close> field the list is the default \<open>[''14'']\<close>, and so it is
  with the empty string as \<^verbatim>\<open>api\<close>, which \<^verbatim>\<open>if api_version:\<close> counts as no version.
\<close>

theorem legacy_api_becomes_version_list:
  assumes "construct_SpaceStatus L (JObj kvs) = Inr r"
    and "\<not> has_key ''api_compatibility'' kvs"
  shows "(map_of kvs ''api'' = Some (JStr X) \<and> X \<noteq> [] \<longrightarrow> api_compatibility r = Some [X]) \<and>
         (map_of kvs ''api'' = Some (JStr []) \<or> \<not> has_key ''api'' kvs \<longrightarrow>
            api_compatibility r = Some [''14''])"
proof (intro conjI impI)
  let ?d = "handle_api_versions kvs"
  from assms(1)
  have ac: "optional ?d ''api_compatibility'' (v_list v_str) = Valid (api_compatibility r)"
    by (simp add: construct_Inr_iff Let_def)
  from assms(2) have none: "map_of kvs ''api_compatibility'' = None"
    by (simp add: has_key_map_of)
  {
    assume "map_of kvs ''api'' = Some (JStr X) \<and> X \<noteq> []"
    then have "map_of ?d ''api_compatibility'' = Some (JArr [JStr X])"
      using handle_legacy(1) [of kvs "JStr X"] none by simp
    with ac show "api_compatibility r = Some [X]"
      by (simp add: optional_Valid v_list_def v_str_def)
  next
    assume "map_of kvs ''api'' = Some (JStr []) \<or> \<not> has_key ''api'' kvs"
    then have "map_of kvs ''api'' = None \<or> (\<exists>v. map_of kvs ''api'' = Some v \<and> \<not> truthy v)"
      by (auto simp: has_key_map_of)
    then have "map_of ?d ''api_compatibility'' = Some (JArr [JStr ''14''])"
      using handle_default(1) [OF none] by simp
    with ac show "api_compatibility r = Some [''14'']"
      by (simp add: optional_Valid v_list_def v_str_def)
  }
qed

text \<open>Claim C4, witness: a document with the legacy field \<^verbatim>\<open>"api": "0.13"\<close> and a document
  with no version field.\<close>

theorem legacy_api_becomes_version_list_witness:
  "map_sum id api_compatibility
     (construct_SpaceStatus plain_lib (JObj [(''api'', JStr ''0.13''), (''space'', JStr ''Foo'')]))
     = Inr (Some [''0.13'']) \<and>
   map_sum id api_compatibility
     (construct_SpaceStatus plain_lib (JObj [(''space'', JStr ''Foo'')])) = Inr (Some [''14''])"
proof -
  let ?a = "[(''api'', JStr ''0.13''), (''space'', JStr ''Foo'')]"
  let ?b = "[(''space'', JStr ''Foo'')]"
  obtain r where r: "construct_SpaceStatus plain_lib (JObj ?a) = Inr r"
    by (simp add: model_defs)
  obtain q where q: "construct_SpaceStatus plain_lib (JObj ?b) = Inr q"
    by (simp add: model_defs)
  have na: "\<not> has_key ''api_compatibility'' ?a" and nb: "\<not> has_key ''api_compatibility'' ?b"
    and nb': "\<not> has_key ''api'' ?b"
    by (simp_all add: has_key_def)
  from legacy_api_becomes_version_list [OF r na, of "''0.13''"]
  have "api_compatibility r = Some [''0.13'']" by simp
  moreover from legacy_api_becomes_version_list [OF q nb] nb'
  have "api_compatibility q = Some [''14'']" by simp
  ultimately show ?thesis using r q by simp
qed

text \<open>Claim C4, counterexample to the claim as stated: the legacy field is the string
  \<^verbatim>\<open>""\<close> and there is no \<^verbatim>\<open>api_compatibility\<close>; the version list is not \<open>[X]\<close>, the list
  of the empty string, but the default.\<close>

theorem empty_legacy_api_gives_default:
  "map_sum id api_compatibility
     (construct_SpaceStatus plain_lib (JObj [(''api'', JStr ''''), (''space'', JStr ''Foo'')]))
     = Inr (Some [''14'']) \<and>
   map_sum id api_compatibility
     (construct_SpaceStatus plain_lib (JObj [(''api'', JStr ''''), (''space'', JStr ''Foo'')]))
     \<noteq> Inr (Some [''''])"
  by (simp add: model_defs)

text \<open>
  Claim C10. For a status document with a non-empty legacy \<^verbatim>\<open>api\<close> string \<open>X\<close> and no
  \<^verbatim>\<open>api_compatibility\<close> that normalizes, the record's own \<^verbatim>\<open>api\<close> field is \<^verbatim>\<open>None\<close>: the
  root validator pops the legacy value, which survives only as the single entry of the
  version list.
\<close>

theorem legacy_api_is_removed:
  assumes "construct_SpaceStatus L (JObj kvs) = Inr r"
    and "map_of kvs ''api'' = Some (JStr X)" and "X \<noteq> []"
    and "\<not> has_key ''api_compatibility'' kvs"
  shows "api r = None \<and> api_compatibility r = Some [X]"
proof -
  let ?d = "handle_api_versions kvs"
  from assms(1)
  have ac: "optional ?d ''api_compatibility'' (v_list v_str) = Valid (api_compatibility r)"
    and a: "optional ?d ''api'' v_str = Valid (api r)"
    by (simp_all add: construct_Inr_iff Let_def)
  from assms(4) have none: "map_of kvs ''api_compatibility'' = None"
    by (simp add: has_key_map_of)
  have "map_of ?d ''api_compatibility'' = Some (JArr [JStr X])" and "map_of ?d ''api'' = None"
    using handle_legacy [of kvs "JStr X"] assms(2,3) none by simp_all
  with ac a show ?thesis
    by (simp add: optional_Valid v_list_def v_str_def)
qed

text \<open>Claim C10, witness: the document \<^verbatim>\<open>{"api": "0.13", "space": "Foo"}\<close> normalizes, to
  a record without \<^verbatim>\<open>api\<close> and with the version list \<open>[''0.13'']\<close>.\<close>

theorem legacy_api_is_removed_witness:
  "map_sum id (\<lambda>r. (api r, api_compatibility r))
     (construct_SpaceStatus plain_lib (JObj [(''api'', JStr ''0.13''), (''space'', JStr ''Foo'')]))
     = Inr (None, Some [''0.13''])"
proof -
  let ?a = "[(''api'', JStr ''0.13''), (''space'', JStr ''Foo'')]"
  obtain r where r: "construct_SpaceStatus plain_lib (JObj ?a) = Inr r"
    by (simp add: model_defs)
  have "api r = None \<and> api_compatibility r = Some [''0.13'']"
    by (rule legacy_api_is_removed [OF r]) (simp_all add: has_key_def)
  then show ?thesis using r by simp
qed

text \<open>
  Claim C5, as the code has it. The root validator ensures one version \<^emph>\<open>field\<close>, not a
  non-empty list: every record that a document normalizes to has a non-empty
  \<^verbatim>\<open>api_compatibility\<close> list or a non-empty \<^verbatim>\<open>api\<close> string. The default list is set only
  when \<^verbatim>\<open>api_compatibility\<close> and \<^verbatim>\<open>api\<close> are both missing or empty.
\<close>

theorem some_version_field_is_set:
  assumes "construct_SpaceStatus L doc = Inr r"
  shows "(\<exists>vs. api_compatibility r = Some vs \<and> vs \<noteq> []) \<or> (\<exists>s. api r = Some s \<and> s \<noteq> [])"
proof -
  from assms obtain kvs where doc: "doc = JObj kvs"
    by (rule construct_Inr_object)
  let ?d = "handle_api_versions kvs"
  from assms doc
  have "optional ?d ''api_compatibility'' (v_list v_str) = Valid (api_compatibility r)"
    and "optional ?d ''api'' v_str = Valid (api r)"
    by (simp_all add: construct_Inr_iff Let_def)
  then show ?thesis by (rule version_field_invariant)
qed

text \<open>Claim C5, witness: a document with an empty \<^verbatim>\<open>api_compatibility\<close> list and the
  legacy field \<^verbatim>\<open>"api": "0.13"\<close> normalizes; its version is in \<^verbatim>\<open>api\<close>.\<close>

theorem some_version_field_is_set_witness:
  "(case construct_SpaceStatus plain_lib
       (JObj [(''api'', JStr ''0.13''), (''api_compatibility'', JArr []), (''space'', JStr ''Foo'')]) of
      Inl e \<Rightarrow> False
    | Inr r \<Rightarrow> (\<exists>vs. api_compatibility r = Some vs \<and> vs \<noteq> []) \<or> (\<exists>s. api r = Some s \<and> s \<noteq> []))"
proof -
  let ?a = "[(''api'', JStr ''0.13''), (''api_compatibility'', JArr []), (''space'', JStr ''Foo'')]"
  obtain r where r: "construct_SpaceStatus plain_lib (JObj ?a) = Inr r"
    by (simp add: model_defs)
  from some_version_field_is_set [OF r]
  have "(\<exists>vs. api_compatibility r = Some vs \<and> vs \<noteq> []) \<or> (\<exists>s. api r = Some s \<and> s \<noteq> [])" .
  with r show ?thesis by (simp only: sum.case)
qed

text \<open>Claim C5, counterexample to the claim as stated: the same document normalizes to a
  record whose version list \<^verbatim>\<open>api_compatibility\<close> is empty.\<close>

theorem empty_version_list_survives:
  "map_sum id api_compatibility
     (construct_SpaceStatus plain_lib
        (JObj [(''api'', JStr ''0.13''), (''api_compatibility'', JArr []), (''space'', JStr ''Foo'')]))
     = Inr (Some [])"
  by (simp add: model_defs)

section \<open>The space name and the location\<close>

text \<open>
  Claim C3, as the code has it. Normalization succeeds only if the document is an object
  with a \<^verbatim>\<open>space\<close> field whose value is a string, and that string, empty or not, is the
  record's name. A document with no \<^verbatim>\<open>space\<close> field fails: with a \<^verbatim>\<open>ValidationError\<close>
  that lists \<^verbatim>\<open>space\<close> as missing, unless an exception of the timestamp or sensor
  validator ends the construction.
\<close>

theorem space_is_required:
  "(construct_SpaceStatus L doc = Inr r \<longrightarrow>
      (\<exists>kvs. doc = JObj kvs \<and> map_of kvs ''space'' = Some (JStr (space r)))) \<and>
   (\<not> has_key ''space'' kvs \<longrightarrow>
      fails_with (''space'', Missing) (construct_SpaceStatus L (JObj kvs)))"
proof (intro conjI impI)
  assume ok: "construct_SpaceStatus L doc = Inr r"
  then obtain kvs where doc: "doc = JObj kvs"
    by (rule construct_Inr_object)
  with ok have "required (handle_api_versions kvs) ''space'' v_str = Valid (space r)"
    by (simp add: construct_Inr_iff Let_def)
  then have "map_of kvs ''space'' = Some (JStr (space r))"
    by (simp add: required_space handle_other)
  with doc show "\<exists>kvs. doc = JObj kvs \<and> map_of kvs ''space'' = Some (JStr (space r))"
    by simp
next
  assume "\<not> has_key ''space'' kvs"
  then have "map_of (handle_api_versions kvs) ''space'' = None"
    by (simp add: has_key_map_of handle_other)
  then have "required (handle_api_versions kvs) ''space'' v_str = Failed Missing"
    by (simp add: required_def)
  then show "fails_with (''space'', Missing) (construct_SpaceStatus L (JObj kvs))"
    by (rule construct_fails_space)
qed

text \<open>Claim C3, witness: a document with a name normalizes to a record of that name; a
  document without \<^verbatim>\<open>space\<close> fails with the error that lists \<^verbatim>\<open>space\<close> as missing.\<close>

theorem space_is_required_witness:
  "map_sum id space (construct_SpaceStatus plain_lib (JObj [(''space'', JStr ''Metalab'')]))
     = Inr ''Metalab'' \<and>
   construct_SpaceStatus plain_lib (JObj [(''url'', JStr ''https://metalab.at'')])
     = Inl (ValidationError [(''space'', Missing)])"
proof -
  let ?a = "JObj [(''space'', JStr ''Metalab'')]"
  let ?b = "[(''url'', JStr ''https://metalab.at'')]"
  obtain r where r: "construct_SpaceStatus plain_lib ?a = Inr r"
    by (simp add: model_defs)
  from space_is_required [of plain_lib ?a r] r
  have "map_of [(''space'', JStr ''Metalab'')] ''space'' = Some (JStr (space r))" by simp
  then have 1: "space r = ''Metalab''" by simp
  have "\<not> has_key ''space'' ?b" by (simp add: has_key_def)
  with space_is_required [of plain_lib _ _ ?b]
  have "fails_with (''space'', Missing) (construct_SpaceStatus plain_lib (JObj ?b))" by simp
  moreover
  have "construct_SpaceStatus plain_lib (JObj ?b) = Inl (ValidationError [(''space'', Missing)])"
    by (simp add: model_defs plain_lib_def absolute_url_def has_host_def)
  ultimately show ?thesis using r 1 by simp
qed

text \<open>Claim C3, counterexample to the claim as stated: the document \<^verbatim>\<open>{"space": ""}\<close>
  normalizes, and the record's name is the empty string.\<close>

theorem empty_space_name_accepted:
  "map_sum id space (construct_SpaceStatus plain_lib (JObj [(''space'', JStr '''')])) = Inr ''''"
  by (simp add: model_defs)

lemma v_float_range_None:
  "v_float L j = Some (Fin x) \<Longrightarrow> x < lo \<or> hi < x \<Longrightarrow> v_float_range L lo hi j = None"
  by (auto simp: v_float_range_def)

lemma v_float_JNull: "v_float L j = Some f \<Longrightarrow> j \<noteq> JNull"
  by (cases j) auto

lemma location_bad_lat:
  assumes "map_of loc ''lat'' = Some j" "v_float L j = Some (Fin x)" "x < -90 \<or> 90 < x"
  shows "validate_SpaceLocation L (JObj loc) = None"
proof -
  have "opt_field loc ''lat'' (v_float_range L (-90) 90) = None"
    using assms v_float_JNull [OF assms(2)] v_float_range_None [OF assms(2), of "-90" 90]
    by (cases j) (auto simp: opt_field_def v_optional_def)
  then show ?thesis
    by (simp add: validate_SpaceLocation_def)
qed

lemma location_bad_lon:
  assumes "map_of loc ''lon'' = Some j" "v_float L j = Some (Fin x)" "x < -180 \<or> 180 < x"
  shows "validate_SpaceLocation L (JObj loc) = None"
proof -
  have "opt_field loc ''lon'' (v_float_range L (-180) 180) = None"
    using assms v_float_JNull [OF assms(2)] v_float_range_None [OF assms(2), of "-180" 180]
    by (cases j) (auto simp: opt_field_def v_optional_def)
  then show ?thesis
    by (simp add: validate_SpaceLocation_def)
qed

text \<open>
  Claim C1, as the code has it. An out-of-range coordinate is not dropped and does not
  leave the rest of the record standing. For every status document whose \<^verbatim>\<open>location\<close> is
  an object with a \<^verbatim>\<open>lat\<close> that is a number outside -90 to 90, or with a \<^verbatim>\<open>lon\<close> that is a
  number outside -180 to 180, the normalization of the whole record fails: with a
  \<^verbatim>\<open>ValidationError\<close> that lists \<^verbatim>\<open>location\<close> as invalid, unless an exception of the
  timestamp or sensor validator ends the construction.
\<close>

theorem out_of_range_coordinate_fails_record:
  assumes "map_of kvs ''location'' = Some (JObj loc)"
    and "v_float L j = Some (Fin x)"
    and "map_of loc ''lat'' = Some j \<and> (x < -90 \<or> 90 < x) \<or>
         map_of loc ''lon'' = Some j \<and> (x < -180 \<or> 180 < x)"
  shows "fails_with (''location'', Invalid) (construct_SpaceStatus L (JObj kvs))"
proof -
  from assms(2,3) have "validate_SpaceLocation L (JObj loc) = None"
    using location_bad_lat location_bad_lon by blast
  with assms(1)
  have "optional (handle_api_versions kvs) ''location'' (validate_SpaceLocation L) = Failed Invalid"
    by (simp add: optional_def opt_field_def handle_other v_optional_def of_option_def)
  then show ?thesis
    by (rule construct_fails_location)
qed

text \<open>Claim C1, witness: with the longitude 200 the document fails as a whole, with the
  \<^verbatim>\<open>ValidationError\<close> that lists \<^verbatim>\<open>location\<close>; with the longitude 200 and a \<^verbatim>\<open>lastchange\<close>
  that is a string it fails with the \<^verbatim>\<open>TypeError\<close> of the timestamp validator.\<close>

theorem out_of_range_coordinate_fails_record_witness:
  "construct_SpaceStatus plain_lib
     (JObj [(''space'', JStr ''Foo''),
            (''location'', JObj [(''lat'', JFloat (Fin 48.2)), (''lon'', JInt 200)])])
     = Inl (ValidationError [(''location'', Invalid)]) \<and>
   construct_SpaceStatus plain_lib
     (JObj [(''space'', JStr ''Foo''),
            (''location'', JObj [(''lat'', JFloat (Fin 48.2)), (''lon'', JInt 200)]),
            (''state'', JObj [(''lastchange'', JStr ''abc'')])])
     = Inl TypeError"
proof -
  let ?loc = "[(''lat'', JFloat (Fin 48.2)), (''lon'', JInt 200)]"
  let ?a = "[(''space'', JStr ''Foo''), (''location'', JObj ?loc)]"
  let ?b = "[(''space'', JStr ''Foo''), (''location'', JObj ?loc),
             (''state'', JObj [(''lastchange'', JStr ''abc'')])]"
  have "fails_with (''location'', Invalid) (construct_SpaceStatus plain_lib (JObj ?a))"
    by (rule out_of_range_coordinate_fails_record [of ?a ?loc plain_lib "JInt 200" 200]) simp_all
  moreover
  have "construct_SpaceStatus plain_lib (JObj ?a) = Inl (ValidationError [(''location'', Invalid)])"
    by (simp add: model_defs)
  moreover
  have "fails_with (''location'', Invalid) (construct_SpaceStatus plain_lib (JObj ?b))"
    by (rule out_of_range_coordinate_fails_record [of ?b ?loc plain_lib "JInt 200" 200]) simp_all
  moreover
  have "construct_SpaceStatus plain_lib (JObj ?b) = Inl TypeError"
    by (simp add: model_defs)
  ultimately show ?thesis by simp
qed

text \<open>Claim C1, counterexample to the claim as stated: the document has a usable name
  and the latitude 91; the location is not dropped, the normalization of the record
  fails.\<close>

theorem out_of_range_latitude_fails_record:
  "construct_SpaceStatus plain_lib
     (JObj [(''space'', JStr ''Foo''), (''location'', JObj [(''lat'', JInt 91), (''lon'', JInt 16)])])
     = Inl (ValidationError [(''location'', Invalid)])"
  by (simp add: model_defs)

section \<open>The timestamp of the last change\<close>

lemma int_of_float_trunc:
  "\<bar>real_of_int (int_of_float x)\<bar> \<le> \<bar>x\<bar>" "\<bar>x - real_of_int (int_of_float x)\<bar> < 1"
  "int_of_float x < 0 \<longleftrightarrow> x \<le> -1"
  unfolding int_of_float_def by (auto; linarith)+

lemma lastchange_of_number:
  assumes "map_of st ''lastchange'' = Some t"
    and "t = JFloat (Fin x) \<and> n = int_of_float x \<or> t = JInt n"
  shows "lastchange_field L st = Valid (if n < 0 then None else Some (IntNum n))"
  using assms by (auto simp: lastchange_field_def Let_def of_option_def v_optional_def)

lemma state_lastchange:
  assumes "state_field L d = Valid so" "map_of d ''state'' = Some (JObj st)"
    and "lastchange_field L st = Valid b"
  shows "\<exists>s. so = Some s \<and> lastchange s = b"
  using assms
  by (auto simp: state_field_def validate_SpaceState_def of_option_def
      split: outcome.splits option.splits Option.bind_splits)

text \<open>
  Claim C6, as the code has it. The validator truncates first and tests the sign after.
  For a \<^verbatim>\<open>lastchange\<close> that is a finite float \<open>x\<close> the value is \<^verbatim>\<open>int(x)\<close>, the whole
  number \<open>n\<close> next to \<open>x\<close> towards zero (\<open>\<bar>n\<bar> \<le> \<bar>x\<bar>\<close>, less than one second away); for
  an int it is the int itself. The field is then never an error: it is absent when \<open>n\<close>
  is negative, which for a float means \<open>x \<le> -1\<close>, and it is \<open>n\<close> otherwise; a float
  between -1 and 0 becomes the timestamp 0. A status document that normalizes holds this
  value in its state.
\<close>

theorem lastchange_truncated_then_checked:
  assumes "map_of st ''lastchange'' = Some t"
    and "t = JFloat (Fin x) \<and> n = int_of_float x \<or> t = JInt n"
  shows "lastchange_field L st = Valid (if n < 0 then None else Some (IntNum n)) \<and>
         (t = JFloat (Fin x) \<longrightarrow>
            \<bar>real_of_int n\<bar> \<le> \<bar>x\<bar> \<and> \<bar>x - real_of_int n\<bar> < 1 \<and> (n < 0 \<longleftrightarrow> x \<le> -1)) \<and>
         (map_of kvs ''state'' = Some (JObj st) \<and> construct_SpaceStatus L (JObj kvs) = Inr r \<longrightarrow>
            (\<exists>s. state r = Some s \<and> lastchange s = (if n < 0 then None else Some (IntNum n))))"
proof (intro conjI impI)
  show lc: "lastchange_field L st = Valid (if n < 0 then None else Some (IntNum n))"
    using assms by (rule lastchange_of_number)
  {
    assume "map_of kvs ''state'' = Some (JObj st) \<and> construct_SpaceStatus L (JObj kvs) = Inr r"
    then have "state_field L (handle_api_versions kvs) = Valid (state r)"
      and "map_of (handle_api_versions kvs) ''state'' = Some (JObj st)"
      by (simp_all add: construct_Inr_iff Let_def handle_other)
    then show "\<exists>s. state r = Some s \<and> lastchange s = (if n < 0 then None else Some (IntNum n))"
      using lc by (rule state_lastchange)
  }
  assume f: "t = JFloat (Fin x)"
  with assms(2) have n: "n = int_of_float x" by simp
  show "\<bar>real_of_int n\<bar> \<le> \<bar>x\<bar>" "\<bar>x - real_of_int n\<bar> < 1" "n < 0 \<longleftrightarrow> x \<le> -1"
    unfolding n by (rule int_of_float_trunc)+
qed

text \<open>Claim C6, witness: the document \<^verbatim>\<open>{"space": "Metalab", "state": {"lastchange": -5}}\<close>
  normalizes, with a state whose \<^verbatim>\<open>lastchange\<close> is absent; the float 1700000000.75
  becomes the timestamp 1700000000.\<close>

theorem lastchange_truncated_then_checked_witness:
  "map_sum id (map_option lastchange \<circ> state)
     (construct_SpaceStatus plain_lib
        (JObj [(''space'', JStr ''Metalab''), (''state'', JObj [(''lastchange'', JInt (- 5))])]))
     = Inr (Some None) \<and>
   lastchange_field plain_lib [(''lastchange'', JFloat (Fin 1700000000.75))]
     = Valid (Some (IntNum 1700000000))"
proof -
  let ?st = "[(''lastchange'', JInt (- 5))]"
  let ?kvs = "[(''space'', JStr ''Metalab''), (''state'', JObj ?st)]"
  obtain r where r: "construct_SpaceStatus plain_lib (JObj ?kvs) = Inr r"
    by (simp add: model_defs)
  from lastchange_truncated_then_checked [of ?st "JInt (- 5)" _ "- 5" plain_lib ?kvs r] r
  obtain s where "state r = Some s" "lastchange s = None"
    by auto
  then have 1: "map_sum id (map_option lastchange \<circ> state)
     (construct_SpaceStatus plain_lib (JObj ?kvs)) = Inr (Some None)"
    using r by simp
  have t: "int_of_float 1700000000.75 = 1700000000"
    by (simp add: int_of_float_def)
  from lastchange_truncated_then_checked
    [of "[(''lastchange'', JFloat (Fin 1700000000.75))]" "JFloat (Fin 1700000000.75)"
        "1700000000.75" 1700000000 plain_lib] t
  have 2: "lastchange_field plain_lib [(''lastchange'', JFloat (Fin 1700000000.75))]
     = Valid (Some (IntNum 1700000000))"
    by simp
  from 1 2 show ?thesis by simp
qed

text \<open>Claim C6, counterexample to the claim as stated: the timestamp -0.5 is negative,
  and it is not treated as absent; the record holds the timestamp 0.\<close>

theorem small_negative_timestamp_kept_as_zero:
  "map_sum id (map_option lastchange \<circ> state)
     (construct_SpaceStatus plain_lib
        (JObj [(''space'', JStr ''Metalab''), (''state'', JObj [(''lastchange'', JFloat (Fin (- 0.5)))])]))
     = Inr (Some (Some (IntNum 0)))"
  by (simp add: model_defs ceiling_def)

section \<open>Cleaning the sensors\<close>








lemma update_fresh: "k \<notin> fst ` set al \<Longrightarrow> AList.update k v al = al @ [(k, v)]"
  by (induction al) auto

lemma clean_sensor_eq:
  "clean_sensor t d =
     (if ''name'' \<in> fst ` set (filter (\<lambda>kv. snd kv \<noteq> JNull) d)
      then filter (\<lambda>kv. snd kv \<noteq> JNull) d
      else filter (\<lambda>kv. snd kv \<noteq> JNull) d @ [(''name'', JStr (t @ ''_sensor''))])"
  by (simp add: clean_sensor_def Let_def setitem_def has_key_def update_fresh)

lemma clean_sensor_nonnull: "JNull \<notin> snd ` set (clean_sensor t d)"
  by (auto simp: clean_sensor_eq)









section \<open>Fetching many endpoints\<close>

lemma gather_fold_lookup:
  "map_of (fold (\<lambda>(url, status) results. setitem url status results) xs acc) k =
     (case map_of (rev xs) k of None \<Rightarrow> map_of acc k | Some v \<Rightarrow> Some v)"
proof (induction xs arbitrary: acc)
  case Nil
  then show ?case by simp
next
  case (Cons x xs)
  then show ?case
    by (cases x) (auto simp: setitem_def update_conv' map_add_def split: option.splits)
qed

lemma gather_fold_keys:
  "fst ` set (fold (\<lambda>(url, status) results. setitem url status results) xs acc) =
     fst ` set acc \<union> fst ` set xs"
  by (induction xs arbitrary: acc) (auto simp: setitem_def dom_update split: prod.splits)

lemma gather_fold_distinct:
  "distinct (map fst acc) \<Longrightarrow>
   distinct (map fst (fold (\<lambda>(url, status) results. setitem url status results) xs acc))"
  by (induction xs arbitrary: acc) (auto simp: setitem_def distinct_update split: prod.splits)

lemma gather_lookup: "map_of (gather xs) k = map_of (rev xs) k"
  by (simp add: gather_def gather_fold_lookup split: option.splits)

lemma gather_keys: "fst ` set (gather xs) = fst ` set xs"
  by (simp add: gather_def gather_fold_keys)

lemma gather_distinct: "distinct (map fst (gather xs))"
  by (simp add: gather_def gather_fold_distinct)

lemma get_space_status_Some:
  "get_space_status L resp = Some status \<longleftrightarrow>
     (\<exists>code doc. resp = Response code (Json doc) \<and> \<not> (400 \<le> code \<and> code < 600) \<and>
        construct_SpaceStatus L doc = Inr status)"
  by (auto simp: get_space_status_def split: response.splits body.splits sum.splits)

text \<open>
  Claim C9, as the code has it. Let the tasks finish in any order (\<open>completed\<close> is a
  rearrangement of the submitted tasks). The returned mapping has exactly one entry per
  endpoint: its keys are distinct and are the submitted URLs. Every entry is the outcome
  of a request to its own URL, and when the URLs are distinct the entry of each endpoint
  is the outcome of that endpoint's request, whatever the other endpoints returned and in
  whatever order they finished. The outcome is a validated record exactly when the
  request returned a status code outside 400 to 599 with a JSON body that normalizes. In
  every other case, a failure of the request, of the decoding or of the normalization,
  the entry is \<^verbatim>\<open>None\<close>: the failure is in the mapping and no exception leaves
  \<^verbatim>\<open>get_space_status\<close>, but the entry carries no tag that tells the kind of the failure.
\<close>

theorem batch_has_one_entry_per_endpoint:
  assumes "mset completed = mset submitted"
  shows "distinct (map fst (get_multiple_space_statuses L completed)) \<and>
         fst ` set (get_multiple_space_statuses L completed) = fst ` set submitted \<and>
         (\<forall>entry \<in> set (get_multiple_space_statuses L completed).
            \<exists>resp. (fst entry, resp) \<in> set submitted \<and> snd entry = get_space_status L resp) \<and>
         (distinct (map fst submitted) \<longrightarrow>
            (\<forall>task \<in> set submitted.
               map_of (get_multiple_space_statuses L completed) (fst task)
                 = Some (get_space_status L (snd task)))) \<and>
         (\<forall>resp status. get_space_status L resp = Some status \<longleftrightarrow>
            (\<exists>code doc. resp = Response code (Json doc) \<and> \<not> (400 \<le> code \<and> code < 600) \<and>
               construct_SpaceStatus L doc = Inr status))"
proof -
  let ?res = "get_multiple_space_statuses L completed"
  let ?done = "map (fetch_space L) completed"
  from assms have same: "set completed = set submitted"
    by (rule mset_eq_setD)
  have keys: "fst ` set ?res = fst ` set submitted"
    by (simp add: get_multiple_space_statuses_def gather_keys same [symmetric] image_image
        fetch_space_def)
  have dist: "distinct (map fst ?res)"
    by (simp add: get_multiple_space_statuses_def gather_distinct)
  have own: "\<exists>resp. (fst entry, resp) \<in> set submitted \<and> snd entry = get_space_status L resp"
    if "entry \<in> set ?res" for entry
  proof -
    from that dist have "map_of ?res (fst entry) = Some (snd entry)"
      by simp
    then have "map_of (rev ?done) (fst entry) = Some (snd entry)"
      by (simp add: get_multiple_space_statuses_def gather_lookup)
    then have "(fst entry, snd entry) \<in> set ?done"
      by (auto dest: map_of_SomeD)
    then show ?thesis
      using same by (auto simp: fetch_space_def)
  qed
  have each: "map_of ?res (fst task) = Some (get_space_status L (snd task))"
    if d: "distinct (map fst submitted)" and t: "task \<in> set submitted" for task
  proof -
    from assms have "mset (map fst completed) = mset (map fst submitted)"
      by (metis mset_map)
    with d have dc: "distinct (map fst completed)"
      by (metis mset_eq_imp_distinct_iff)
    have "map fst (rev ?done) = rev (map fst completed)"
      by (simp add: rev_map fetch_space_def comp_def)
    with dc have "distinct (map fst (rev ?done))" by simp
    moreover from t same have "fetch_space L task \<in> set (rev ?done)" by simp
    ultimately have "map_of (rev ?done) (fst task) = Some (get_space_status L (snd task))"
      by (simp add: fetch_space_def)
    then show ?thesis
      by (simp add: get_multiple_space_statuses_def gather_lookup)
  qed
  from dist keys own each show ?thesis
    by (simp add: get_space_status_Some)
qed

text \<open>Claim C9, witness: five endpoints are submitted in the order a, b, c, d, e and
  finish in the order d, a, e, b, c; the request to b fails and d answers 503. The mapping
  has five entries, three records and two failures.\<close>

theorem batch_has_one_entry_per_endpoint_witness:
  "map (\<lambda>entry. (fst entry, map_option space (snd entry)))
     (get_multiple_space_statuses plain_lib
        [(''http://d.example'', Response 503 NotJson),
         (''http://a.example'', Response 200 (Json (JObj [(''space'', JStr ''A'')]))),
         (''http://e.example'', Response 200 (Json (JObj [(''space'', JStr ''E'')]))),
         (''http://b.example'', RequestException),
         (''http://c.example'', Response 200 (Json (JObj [(''space'', JStr ''C'')])))])
     = [(''http://d.example'', None), (''http://a.example'', Some ''A''),
        (''http://e.example'', Some ''E''), (''http://b.example'', None),
        (''http://c.example'', Some ''C'')] \<and>
   map_of (get_multiple_space_statuses plain_lib
        [(''http://d.example'', Response 503 NotJson),
         (''http://a.example'', Response 200 (Json (JObj [(''space'', JStr ''A'')]))),
         (''http://e.example'', Response 200 (Json (JObj [(''space'', JStr ''E'')]))),
         (''http://b.example'', RequestException),
         (''http://c.example'', Response 200 (Json (JObj [(''space'', JStr ''C'')])))])
     ''http://b.example'' = Some None"
proof -
  let ?a = "(''http://a.example'', Response 200 (Json (JObj [(''space'', JStr ''A'')])))"
  let ?b = "(''http://b.example'', RequestException)"
  let ?c = "(''http://c.example'', Response 200 (Json (JObj [(''space'', JStr ''C'')])))"
  let ?d = "(''http://d.example'', Response 503 NotJson)"
  let ?e = "(''http://e.example'', Response 200 (Json (JObj [(''space'', JStr ''E'')])))"
  let ?submitted = "[?a, ?b, ?c, ?d, ?e]"
  let ?completed = "[?d, ?a, ?e, ?b, ?c]"
  have perm: "mset ?completed = mset ?submitted" by simp
  have dist: "distinct (map fst ?submitted)" by simp
  have "map_of (get_multiple_space_statuses plain_lib ?completed) (fst ?b)
          = Some (get_space_status plain_lib (snd ?b))"
    using batch_has_one_entry_per_endpoint [OF perm, of plain_lib] dist by simp
  then have 1: "map_of (get_multiple_space_statuses plain_lib ?completed) ''http://b.example''
          = Some None"
    by (simp add: get_space_status_def)
  have 2: "map (\<lambda>entry. (fst entry, map_option space (snd entry)))
      (get_multiple_space_statuses plain_lib ?completed)
     = [(''http://d.example'', None), (''http://a.example'', Some ''A''),
        (''http://e.example'', Some ''E''), (''http://b.example'', None),
        (''http://c.example'', Some ''C'')]"
    by (simp add: get_multiple_space_statuses_def gather_def fetch_space_def get_space_status_def
        model_defs)
  from 1 2 show ?thesis by simp
qed

text \<open>Claim C9, counterexample to the claim as stated: an answer 503, a failed request,
  a body that is no JSON, a body that is no object and a document without a name are five
  kinds of failure, and their entries are the same bare \<^verbatim>\<open>None\<close>, not tagged failures.\<close>

theorem failures_are_not_tagged:
  "get_multiple_space_statuses plain_lib
     [(''http://a.example'', Response 503 NotJson),
      (''http://b.example'', RequestException),
      (''http://c.example'', Response 200 NotJson),
      (''http://d.example'', Response 200 (Json (JArr []))),
      (''http://e.example'', Response 200 (Json (JObj [(''url'', JStr ''http://e.example/'')])))]
   = [(''http://a.example'', None), (''http://b.example'', None), (''http://c.example'', None),
      (''http://d.example'', None), (''http://e.example'', None)]"
  by (simp add: get_multiple_space_statuses_def gather_def fetch_space_def get_space_status_def
      model_defs plain_lib_def absolute_url_def has_host_def)

section \<open>Normalizing a written record\<close>

subsection \<open>Validated values validate to themselves\<close>












lemma those_map_Some: "those (map Some xs) = Some xs"
  by (induction xs) auto

lemma those_map_Some_eq: "those (map Some xs) = Some ys \<longleftrightarrow> xs = ys"
  by (simp add: those_map_Some)













subsection \<open>The state and the sensors\<close>






lemma clean_sensor_has_name: "''name'' \<in> fst ` set (clean_sensor t d)"
  by (auto simp: clean_sensor_eq)

lemma clean_sensor_fixed:
  assumes "JNull \<notin> snd ` set e" "''name'' \<in> fst ` set e"
  shows "clean_sensor t e = e"
proof -
  from assms(1) have "filter (\<lambda>kv. snd kv \<noteq> JNull) e = e"
    by (intro filter_True) (metis imageI)
  with assms(2) show ?thesis by (simp add: clean_sensor_eq)
qed

lemma clean_sensor_idem: "clean_sensor t (clean_sensor t d) = clean_sensor t d"
  by (rule clean_sensor_fixed) (rule clean_sensor_nonnull, rule clean_sensor_has_name)


















subsection \<open>The record\<close>





end
